theory Spec2Isabelle
  imports Main "HOL-Library.Word" "HOL-Library.Sublist" "HOL-Library.Multiset"
begin

section \<open>Numbers\<close>

text \<open>
  Every metric value of the exporter is a Go \<open>float64\<close> obtained by converting a signed
  machine integer, or one of the constants 0 and 1.  All these values are integral, so a
  \<open>float64\<close> is represented by the integer it equals.  The conversion from \<open>int64\<close> rounds
  to 53 significant bits, ties to even; integers of magnitude up to \<open>2 ^ 53\<close> are kept.
\<close>

type_synonym float64 = int

type_synonym int16 = "16 word"
type_synonym int32 = "32 word"
type_synonym int64 = "64 word"

definition float64_exp :: "int \<Rightarrow> nat" where
  "float64_exp n = length (takeWhile (\<lambda>k. 2 ^ (53 + k) \<le> n) [0..<11])"

definition float64_of_int :: "int \<Rightarrow> float64" where
  "float64_of_int x =
     (let n = \<bar>x\<bar> in
      if n \<le> 2 ^ 53 then x
      else
        let e = float64_exp n;
            q = n div 2 ^ e;
            r = n mod 2 ^ e;
            q' = (if 2 * r > 2 ^ e \<or> (2 * r = 2 ^ e \<and> odd q) then q + 1 else q)
        in sgn x * (q' * 2 ^ e))"

definition float64_of_int64 :: "int64 \<Rightarrow> float64" where
  "float64_of_int64 w = float64_of_int (sint w)"

definition float64_of_int32 :: "int32 \<Rightarrow> float64" where
  "float64_of_int32 w = float64_of_int (sint w)"

section \<open>Inventory snapshots\<close>

text \<open>
  The snapshot types \<open>mo.HostSystem\<close> and \<open>mo.Datastore\<close> belong to the inventory client
  library.  A snapshot is represented by the summary fields the exporter reads, each
  named by its access path and typed as the library types it: memory size, capacity and
  free space are \<open>int64\<close>, the CPU clock, CPU usage and memory usage are \<open>int32\<close>, the core
  count is \<open>int16\<close>, the connection state is a string.
\<close>

record HostSystem =
  Summary_Config_Name :: string
  Summary_Hardware_MemorySize :: int64
  Summary_Hardware_CpuMhz :: int32
  Summary_Hardware_NumCpuCores :: int16
  Summary_QuickStats_OverallCpuUsage :: int32
  Summary_QuickStats_OverallMemoryUsage :: int32
  Summary_Runtime_ConnectionState :: string

record Datastore =
  Summary_Name :: string
  Summary_Capacity :: int64
  Summary_FreeSpace :: int64
  Summary_Accessible :: bool

section \<open>Metric descriptors and samples\<close>

text \<open>
  \<open>prometheus.NewDesc\<close> records the name, the help text and the label names of a metric
  family; \<open>prometheus.MustNewConstMetric\<close> builds one gauge sample from a descriptor, a
  value and the label values.  The library panics in \<open>MustNewConstMetric\<close> when the number
  of label values differs from the number of label names of the descriptor;
  \<open>labelsMatch\<close> is that check.
\<close>

record Desc =
  fqName :: string
  helpText :: string
  variableLabels :: "string list"

record Metric =
  metricDesc :: Desc
  metricValue :: float64
  labelValues :: "string list"

definition NewDesc :: "string \<Rightarrow> string \<Rightarrow> string list \<Rightarrow> Desc" where
  "NewDesc name hlp labels = \<lparr>fqName = name, helpText = hlp, variableLabels = labels\<rparr>"

definition MustNewConstMetric :: "Desc \<Rightarrow> float64 \<Rightarrow> string list \<Rightarrow> Metric" where
  "MustNewConstMetric d v lvs = \<lparr>metricDesc = d, metricValue = v, labelValues = lvs\<rparr>"

definition labelsMatch :: "Metric \<Rightarrow> bool" where
  "labelsMatch s = (length (labelValues s) = length (variableLabels (metricDesc s)))"

section \<open>Host metric definitions (host.go)\<close>

type_synonym hostMetricGetter = "HostSystem \<Rightarrow> float64"
type_synonym hostLabelGetter = "HostSystem \<Rightarrow> string"

record vsphereHostMetric =
  h_desc :: Desc
  h_metricGetter :: hostMetricGetter
  h_labelsGetter :: "hostLabelGetter list"

definition getHostName :: hostLabelGetter where
  "getHostName h = Summary_Config_Name h"

definition getMemorySize :: hostMetricGetter where
  "getMemorySize h = float64_of_int64 (Summary_Hardware_MemorySize h)"

definition getMemoryUsage :: hostMetricGetter where
  "getMemoryUsage h =
     float64_of_int64 ((scast (Summary_QuickStats_OverallMemoryUsage h) :: int64) * 1024 * 1024)"

definition getCPUTotal :: hostMetricGetter where
  "getCPUTotal h =
     float64_of_int64 ((scast (Summary_Hardware_CpuMhz h) :: int64)
                       * (scast (Summary_Hardware_NumCpuCores h) :: int64))"

definition getCpuUsage :: hostMetricGetter where
  "getCpuUsage h = float64_of_int32 (Summary_QuickStats_OverallCpuUsage h)"

definition getConnectedState :: hostMetricGetter where
  "getConnectedState h = (if Summary_Runtime_ConnectionState h = ''connected'' then 1 else 0)"

definition getDisconnectedState :: hostMetricGetter where
  "getDisconnectedState h =
     (if Summary_Runtime_ConnectionState h = ''disconnected'' then 1 else 0)"

definition getNotRespondingState :: hostMetricGetter where
  "getNotRespondingState h =
     (if Summary_Runtime_ConnectionState h = ''notResponding'' then 1 else 0)"

definition hostLabelGetterFuncRegistry :: "string \<rightharpoonup> hostLabelGetter" where
  "hostLabelGetterFuncRegistry = map_of [(''getHostName'', getHostName)]"

definition hostMetricGetterFuncRegistry :: "string \<rightharpoonup> hostMetricGetter" where
  "hostMetricGetterFuncRegistry = map_of
     [(''getMemorySize'', getMemorySize),
      (''getMemoryUsage'', getMemoryUsage),
      (''getCPUTotal'', getCPUTotal),
      (''getCpuUsage'', getCpuUsage),
      (''getConnectedState'', getConnectedState),
      (''getDisconnectedState'', getDisconnectedState),
      (''getNotRespondingState'', getNotRespondingState)]"

definition hostLabelValues :: "hostLabelGetter list" where
  "hostLabelValues = [the (hostLabelGetterFuncRegistry ''getHostName'')]"

definition newVsphereHostMetric ::
  "string \<Rightarrow> string \<Rightarrow> string list \<Rightarrow> hostMetricGetter \<Rightarrow> hostLabelGetter list \<Rightarrow> vsphereHostMetric"
where
  "newVsphereHostMetric name description labels metricGetter labelsGetter =
     \<lparr>h_desc = NewDesc name description labels,
      h_metricGetter = metricGetter,
      h_labelsGetter = labelsGetter\<rparr>"

section \<open>Datastore metric definitions (datastore.go)\<close>

type_synonym datastoreMetricGetter = "Datastore \<Rightarrow> float64"
type_synonym datastoreLabelGetter = "Datastore \<Rightarrow> string"

record vsphereDatastoreMetric =
  d_desc :: Desc
  d_metricGetter :: datastoreMetricGetter
  d_labelsGetter :: "datastoreLabelGetter list"

definition getDatastoreName :: datastoreLabelGetter where
  "getDatastoreName d = Summary_Name d"

definition getCapacity :: datastoreMetricGetter where
  "getCapacity d = float64_of_int64 (Summary_Capacity d)"

definition getFreeSpace :: datastoreMetricGetter where
  "getFreeSpace d = float64_of_int64 (Summary_FreeSpace d)"

definition getAccessibility :: datastoreMetricGetter where
  "getAccessibility d = (if Summary_Accessible d = True then 1 else 0)"

definition datastoreLabelGetterFuncRegistry :: "string \<rightharpoonup> datastoreLabelGetter" where
  "datastoreLabelGetterFuncRegistry = map_of [(''getDatastoreName'', getDatastoreName)]"

definition datastoreMetricGetterFuncRegistry :: "string \<rightharpoonup> datastoreMetricGetter" where
  "datastoreMetricGetterFuncRegistry = map_of
     [(''getCapacity'', getCapacity),
      (''getFreeSpace'', getFreeSpace),
      (''getAccessibility'', getAccessibility)]"

definition datastoreLabelValues :: "datastoreLabelGetter list" where
  "datastoreLabelValues = [the (datastoreLabelGetterFuncRegistry ''getDatastoreName'')]"

definition newVsphereDatastoreMetric ::
  "string \<Rightarrow> string \<Rightarrow> string list \<Rightarrow> datastoreMetricGetter \<Rightarrow> datastoreLabelGetter list
     \<Rightarrow> vsphereDatastoreMetric"
where
  "newVsphereDatastoreMetric name description labels metricGetter labelsGetter =
     \<lparr>d_desc = NewDesc name description labels,
      d_metricGetter = metricGetter,
      d_labelsGetter = labelsGetter\<rparr>"

section \<open>The metric lists and the exporter (vsphere_exporter.go)\<close>

definition namespace :: string where
  "namespace = ''vsphere''"

definition esxiMetricPrefix :: string where
  "esxiMetricPrefix = ''esxi_''"

definition datastoreMetricPrefix :: string where
  "datastoreMetricPrefix = ''datastore_''"

text \<open>
  The repository holds three texts of \<open>host.go\<close> and two of \<open>datastore.go\<close>.  They share
  the getters above and differ in the label names and in the collection function.  The
  metric lists of \<open>vsphere_exporter.go\<close> take the label names of the text they are
  built with.
\<close>

text \<open>The getters are looked up in the registries by constant keys, all of them present
  (\<open>hostMetricGetterFuncRegistry_lookups\<close>, \<open>datastoreMetricGetterFuncRegistry_lookups\<close>
  below).\<close>

definition hostMetrics :: "string list \<Rightarrow> vsphereHostMetric list" where
  "hostMetrics hostLabelNames =
    [newVsphereHostMetric (esxiMetricPrefix @ ''memory_total_bytes'') ''Size of the esxi memory''
       hostLabelNames (the (hostMetricGetterFuncRegistry ''getMemorySize'')) hostLabelValues,
     newVsphereHostMetric (esxiMetricPrefix @ ''memory_usage_bytes'') ''Memory usage of the ESXi host''
       hostLabelNames (the (hostMetricGetterFuncRegistry ''getMemoryUsage'')) hostLabelValues,
     newVsphereHostMetric (esxiMetricPrefix @ ''cpu_total_mhz'') ''Total cpu available''
       hostLabelNames (the (hostMetricGetterFuncRegistry ''getCPUTotal'')) hostLabelValues,
     newVsphereHostMetric (esxiMetricPrefix @ ''cpu_usage_mhz'') ''CPU usage''
       hostLabelNames (the (hostMetricGetterFuncRegistry ''getCpuUsage'')) hostLabelValues,
     newVsphereHostMetric (esxiMetricPrefix @ ''connected_state'') ''Esxi host connected state''
       hostLabelNames (the (hostMetricGetterFuncRegistry ''getConnectedState'')) hostLabelValues,
     newVsphereHostMetric (esxiMetricPrefix @ ''disconnected_state'') ''Esxi host connected state''
       hostLabelNames (the (hostMetricGetterFuncRegistry ''getDisconnectedState'')) hostLabelValues,
     newVsphereHostMetric (esxiMetricPrefix @ ''not_responding_state'') ''Esxi host connected state''
       hostLabelNames (the (hostMetricGetterFuncRegistry ''getNotRespondingState'')) hostLabelValues]"

definition datastoreMetrics :: "string list \<Rightarrow> vsphereDatastoreMetric list" where
  "datastoreMetrics datastoreLabelNames =
    [newVsphereDatastoreMetric (datastoreMetricPrefix @ ''capacity_bytes'') ''Datastore capacity''
       datastoreLabelNames (the (datastoreMetricGetterFuncRegistry ''getCapacity''))
       datastoreLabelValues,
     newVsphereDatastoreMetric (datastoreMetricPrefix @ ''free_space_bytes'') ''Datastore free space''
       datastoreLabelNames (the (datastoreMetricGetterFuncRegistry ''getFreeSpace''))
       datastoreLabelValues,
     newVsphereDatastoreMetric (datastoreMetricPrefix @ ''accessibility'')
       ''Datastore connectivity status''
       datastoreLabelNames (the (datastoreMetricGetterFuncRegistry ''getAccessibility''))
       datastoreLabelValues]"

text \<open>The label names: of the cluster walk (the first text of the unnamed file), of the
  walk that asks for each host on its own (its second text), of the view over the whole
  inventory (\<open>host.go\<close>); and for datastores of the walk by datacenter (the first text of
  \<open>datastore.go\<close>) and of the view (its second text).\<close>

definition hostLabelNames :: "string list" where
  "hostLabelNames = [''name'', ''datacenter'', ''cluster'']"

definition hostLabelNames_each :: "string list" where
  "hostLabelNames_each = [''host'', ''datacenter'', ''cluster'']"

definition hostLabelNames_view :: "string list" where
  "hostLabelNames_view = [''host'']"

definition datastoreLabelNames :: "string list" where
  "datastoreLabelNames = [''name'', ''datacenter'']"

definition datastoreLabelNames_view :: "string list" where
  "datastoreLabelNames_view = [''name'']"

subsection \<open>What a collection task does\<close>

text \<open>
  A task is observed through its property-retrieval calls to the inventory service, its
  writes to \<open>e.vcenterAvailable\<close> and the samples it sends on the channel, in the order
  in which it performs them.
\<close>

datatype error = Error string

datatype call =
    ViewRetrieve                 \<comment> \<open>\<open>view.Retrieve\<close> over a container view\<close>
  | PropertyRetrieve "string list"   \<comment> \<open>\<open>pc.Retrieve\<close> for a list of references\<close>
  | ObjectProperties string      \<comment> \<open>\<open>host.Properties\<close> for one reference\<close>

datatype event =
    Call call
  | SetAvailable float64
  | Emit Metric

definition emitted :: "event list \<Rightarrow> Metric list" where
  "emitted tr = concat (map (\<lambda>ev. case ev of Emit m \<Rightarrow> [m] | _ \<Rightarrow> []) tr)"

definition calls :: "event list \<Rightarrow> call list" where
  "calls tr = concat (map (\<lambda>ev. case ev of Call c \<Rightarrow> [c] | _ \<Rightarrow> []) tr)"

definition writes :: "event list \<Rightarrow> float64 list" where
  "writes tr = concat (map (\<lambda>ev. case ev of SetAvailable v \<Rightarrow> [v] | _ \<Rightarrow> []) tr)"

text \<open>The value of \<open>e.vcenterAvailable\<close> after the writes of a trace, from value \<open>a\<close>.\<close>

definition availableAfter :: "float64 \<Rightarrow> event list \<Rightarrow> float64" where
  "availableAfter a tr = foldl (\<lambda>cur v. v) a (writes tr)"

subsection \<open>Hosts\<close>

text \<open>
  A host handle (\<open>object.HostSystem\<close>) with its reference, its name and the answer of
  the inventory service to \<open>Properties\<close>; a cluster with its name, the answer to \<open>Hosts\<close>
  and the answer to the one \<open>pc.Retrieve\<close> for its hosts.
\<close>

record HostHandle =
  host_Reference :: string
  host_Name :: string
  host_Properties :: "error + HostSystem"

record ClusterComputeResource =
  cluster_Name :: string
  cluster_Hosts :: "error + HostHandle list"
  cluster_Retrieve :: "error + HostSystem list"

definition zeroHostSystem :: HostSystem where
  "zeroHostSystem =
     \<lparr>Summary_Config_Name = [], Summary_Hardware_MemorySize = 0, Summary_Hardware_CpuMhz = 0,
      Summary_Hardware_NumCpuCores = 0, Summary_QuickStats_OverallCpuUsage = 0,
      Summary_QuickStats_OverallMemoryUsage = 0, Summary_Runtime_ConnectionState = []\<rparr>"

text \<open>The innermost iterations: the label values of one metric for one host, then one sample
  for each metric of the list.  A failed \<open>pc.Retrieve\<close> is logged and leaves the slice
  \<open>hs\<close> as declared, empty, and the loop over it runs all the same.  The map
  \<open>hostsRefList\<close> (and \<open>datastoresRefList\<close> for datastores) is written and never read; it
  is left out.\<close>

definition hostLabelValuesOf :: "vsphereHostMetric \<Rightarrow> HostSystem \<Rightarrow> string list" where
  "hostLabelValuesOf metric h = map (\<lambda>labelGetter. labelGetter h) (h_labelsGetter metric)"

definition collectHostMetricFromCluster :: "string \<Rightarrow> ClusterComputeResource \<Rightarrow> event list" where
  "collectHostMetricFromCluster datacenterName cluster =
     (case cluster_Hosts cluster of
        Inl err \<Rightarrow> []
      | Inr hosts \<Rightarrow>
          if length hosts > 0 then
            (let refs = map host_Reference hosts;
                 hs = (case cluster_Retrieve cluster of Inl err \<Rightarrow> [] | Inr hs \<Rightarrow> hs)
             in Call (PropertyRetrieve refs) #
                concat (map (\<lambda>h.
                  map (\<lambda>metric.
                    Emit (MustNewConstMetric (h_desc metric) (h_metricGetter metric h)
                           (hostLabelValuesOf metric h @ [datacenterName] @ [cluster_Name cluster])))
                    (hostMetrics hostLabelNames)) hs))
          else [])"

text \<open>The second text of the unnamed file walks the clusters in turn and asks for the
  properties of each host on its own; a failed \<open>Hosts\<close> call ends the whole walk, a failed
  \<open>Properties\<close> call leaves the zero snapshot, whose metrics are sent all the same.  The
  walk tests the error of \<open>Hosts\<close> twice: the first test returns, the second would write
  0 to \<open>e.vcenterAvailable\<close>.\<close>

definition collectHostMetrics_each_host ::
  "string \<Rightarrow> ClusterComputeResource \<Rightarrow> HostHandle \<Rightarrow> event list" where
  "collectHostMetrics_each_host datacenterName c host =
     (let h = (case host_Properties host of Inl err \<Rightarrow> zeroHostSystem | Inr h \<Rightarrow> h)
      in Call (ObjectProperties (host_Reference host)) #
         map (\<lambda>metric.
           Emit (MustNewConstMetric (h_desc metric) (h_metricGetter metric h)
                  (hostLabelValuesOf metric h @ [datacenterName] @ [cluster_Name c])))
           (hostMetrics hostLabelNames_each))"

text \<open>A Go call that returns a value and an error: the value is the zero value when the
  error is set.\<close>

definition goResult :: "error + 'a list \<Rightarrow> 'a list \<times> error option" where
  "goResult r = (case r of Inl err \<Rightarrow> ([], Some err) | Inr xs \<Rightarrow> (xs, None))"

fun collectHostMetrics_each_clusters :: "string \<Rightarrow> ClusterComputeResource list \<Rightarrow> event list" where
  "collectHostMetrics_each_clusters datacenterName [] = []"
| "collectHostMetrics_each_clusters datacenterName (c # clusters) =
     (let (hs, err) = goResult (cluster_Hosts c) in
      if err \<noteq> None then []
      else
        (if err \<noteq> None then [SetAvailable 0] else [])
        @ concat (map (collectHostMetrics_each_host datacenterName c) hs)
        @ collectHostMetrics_each_clusters datacenterName clusters)"

text \<open>\<open>host.go\<close> retrieves every host of the inventory through the host view.\<close>

definition collectHostMetrics_view :: "error + HostSystem list \<Rightarrow> event list" where
  "collectHostMetrics_view retrieved =
     Call ViewRetrieve #
     (case retrieved of
        Inl err \<Rightarrow> [SetAvailable 0]
      | Inr hs \<Rightarrow>
          SetAvailable 1 #
          concat (map (\<lambda>h.
            map (\<lambda>metric.
              Emit (MustNewConstMetric (h_desc metric) (h_metricGetter metric h)
                     (hostLabelValuesOf metric h)))
              (hostMetrics hostLabelNames_view)) hs))"

subsection \<open>Datastores\<close>

record DatastoreHandle =
  datastore_Reference :: string
  datastore_Name :: string

definition datastoreLabelValuesOf :: "vsphereDatastoreMetric \<Rightarrow> Datastore \<Rightarrow> string list" where
  "datastoreLabelValuesOf metric d = map (\<lambda>labelGetter. labelGetter d) (d_labelsGetter metric)"

text \<open>
  A datacenter as its two tasks see it: its name, and the answers of the inventory
  service to the cluster listing, to the datastore listing and to the one \<open>pc.Retrieve\<close>
  for its datastores.
\<close>

record Datacenter =
  dc_Name :: string
  dc_ClusterComputeResourceList :: "error + ClusterComputeResource list"
  dc_DatastoreList :: "error + DatastoreHandle list"
  dc_DatastoreRetrieve :: "error + Datastore list"

definition collectDatastoreMetrics :: "Datacenter \<Rightarrow> event list" where
  "collectDatastoreMetrics dc =
     (case dc_DatastoreList dc of
        Inl err \<Rightarrow> []
      | Inr datastores \<Rightarrow>
          if length datastores > 0 then
            (let refs = map datastore_Reference datastores
             in Call (PropertyRetrieve refs) #
                (case dc_DatastoreRetrieve dc of
                   Inl err \<Rightarrow> []
                 | Inr ds \<Rightarrow>
                     concat (map (\<lambda>d.
                       map (\<lambda>metric.
                         Emit (MustNewConstMetric (d_desc metric) (d_metricGetter metric d)
                                (datastoreLabelValuesOf metric d @ [dc_Name dc])))
                         (datastoreMetrics datastoreLabelNames)) ds)))
          else [])"

definition collectDatastoreMetrics_view :: "error + Datastore list \<Rightarrow> event list" where
  "collectDatastoreMetrics_view retrieved =
     Call ViewRetrieve #
     (case retrieved of
        Inl err \<Rightarrow> [SetAvailable 0]
      | Inr ds \<Rightarrow>
          SetAvailable 1 #
          concat (map (\<lambda>d.
            map (\<lambda>metric.
              Emit (MustNewConstMetric (d_desc metric) (d_metricGetter metric d)
                     (datastoreLabelValuesOf metric d)))
              (datastoreMetrics datastoreLabelNames_view)) ds))"

subsection \<open>Concurrent tasks\<close>

text \<open>
  Tasks started with \<open>go\<close> run in no fixed order.  A run of several tasks is an
  interleaving of their event lists: each step takes the next event of some task that
  still has one.
\<close>

inductive interleaving :: "'a list list \<Rightarrow> 'a list \<Rightarrow> bool" where
  finished: "\<forall>t \<in> set ts. t = [] \<Longrightarrow> interleaving ts []"
| step: "i < length ts \<Longrightarrow> ts ! i = x # rest \<Longrightarrow> interleaving (ts[i := rest]) tr
           \<Longrightarrow> interleaving ts (x # tr)"

code_pred interleaving .

text \<open>\<open>collectHostMetrics\<close> lists the clusters, starts one task for each cluster and waits
  for them all.\<close>

definition collectHostMetrics :: "Datacenter \<Rightarrow> event list \<Rightarrow> bool" where
  "collectHostMetrics dc tr =
     (case dc_ClusterComputeResourceList dc of
        Inl err \<Rightarrow> tr = []
      | Inr clusters \<Rightarrow>
          interleaving (map (collectHostMetricFromCluster (dc_Name dc)) clusters) tr)"

definition collectHostMetrics_each :: "Datacenter \<Rightarrow> event list" where
  "collectHostMetrics_each dc =
     (case dc_ClusterComputeResourceList dc of
        Inl err \<Rightarrow> []
      | Inr clusters \<Rightarrow> collectHostMetrics_each_clusters (dc_Name dc) clusters)"

subsection \<open>The exporter\<close>

text \<open>\<open>prometheus.BuildFQName\<close> joins the non-empty parts of a name with underscores;
  a new gauge has the value 0.\<close>

definition BuildFQName :: "string \<Rightarrow> string \<Rightarrow> string \<Rightarrow> string" where
  "BuildFQName ns subsystem name =
     (if name = [] then []
      else if ns \<noteq> [] \<and> subsystem \<noteq> [] then ns @ ''_'' @ subsystem @ ''_'' @ name
      else if ns \<noteq> [] then ns @ ''_'' @ name
      else if subsystem \<noteq> [] then subsystem @ ''_'' @ name
      else name)"

record Gauge =
  gaugeDesc :: Desc
  gaugeValue :: float64

definition NewGauge :: "string \<Rightarrow> string \<Rightarrow> string \<Rightarrow> Gauge" where
  "NewGauge ns name hlp = \<lparr>gaugeDesc = NewDesc (BuildFQName ns [] name) hlp [], gaugeValue = 0\<rparr>"

definition gaugeMetric :: "Gauge \<Rightarrow> Metric" where
  "gaugeMetric g = \<lparr>metricDesc = gaugeDesc g, metricValue = gaugeValue g, labelValues = []\<rparr>"

record Exporter =
  up :: Gauge
  vcenterAvailable :: float64

text \<open>\<open>NewExporter\<close> ends the process (\<open>log.Fatal\<close>) when the client or one of the two
  container views cannot be created.\<close>

definition NewExporter :: "error option \<Rightarrow> error option \<Rightarrow> error option \<Rightarrow> Exporter option" where
  "NewExporter newClientErr datastoreViewErr hostViewErr =
     (if newClientErr \<noteq> None then None
      else if datastoreViewErr \<noteq> None then None
      else if hostViewErr \<noteq> None then None
      else Some \<lparr>up = NewGauge namespace ''up'' ''Was the last scrape of vCenter metrics success'',
                 vcenterAvailable = 1\<rparr>)"

definition vcenterAvailableDesc :: Desc where
  "vcenterAvailableDesc = NewDesc ''vcenter_available'' ''Set to 1 if the vcenter is available'' []"

text \<open>The tasks of one poll, two for each datacenter, in the order of the loop.\<close>

definition pollTasks :: "event list list \<Rightarrow> Datacenter list \<Rightarrow> event list list" where
  "pollTasks hostTraces datacenters =
     concat (map (\<lambda>(ht, dc). [ht, collectDatastoreMetrics dc]) (zip hostTraces datacenters))"

text \<open>
  \<open>Collect\<close> relates the answer to the datacenter listing and the exporter before the
  poll to the samples sent on the channel, in order, and the exporter after the poll.
\<close>

inductive Collect :: "error + Datacenter list \<Rightarrow> Exporter \<Rightarrow> Metric list \<times> Exporter \<Rightarrow> bool" where
  Collect_listing_failed:
    "Collect (Inl err) e ([gaugeMetric (up e)], e\<lparr>vcenterAvailable := 0\<rparr>)"
| Collect_listing_done:
    "list_all2 collectHostMetrics datacenters hostTraces
     \<Longrightarrow> interleaving (pollTasks hostTraces datacenters) tr
     \<Longrightarrow> available = availableAfter 1 tr
     \<Longrightarrow> Collect (Inr datacenters) e
           (gaugeMetric (up e) # emitted tr
              @ [MustNewConstMetric vcenterAvailableDesc available []],
            e\<lparr>vcenterAvailable := available\<rparr>)"

code_pred Collect .

text \<open>The exporters that occur: the one \<open>NewExporter\<close> returns, and each exporter a poll
  leaves behind.\<close>

inductive reachable :: "Exporter \<Rightarrow> bool" where
  started: "NewExporter newClientErr datastoreViewErr hostViewErr = Some e \<Longrightarrow> reachable e"
| polled: "reachable e \<Longrightarrow> Collect listing e (stream, e') \<Longrightarrow> reachable e'"

subsection \<open>Properties of events\<close>

text \<open>An object sample carries as many label values as its descriptor has label names and
  is named with one of the two object prefixes.  The walk by datacenter and cluster only
  calls the inventory service and sends object samples.\<close>

definition objectSample :: "Metric \<Rightarrow> bool" where
  "objectSample s =
     (labelsMatch s \<and>
      (prefix esxiMetricPrefix (fqName (metricDesc s))
       \<or> prefix datastoreMetricPrefix (fqName (metricDesc s))))"

definition walkEvent :: "event \<Rightarrow> bool" where
  "walkEvent ev = (case ev of Call c \<Rightarrow> True | SetAvailable v \<Rightarrow> False | Emit s \<Rightarrow> objectSample s)"

subsection \<open>Example inventories\<close>

definition exampleHost :: HostSystem where
  "exampleHost =
     \<lparr>Summary_Config_Name = ''esx1'', Summary_Hardware_MemorySize = 17179869184,
      Summary_Hardware_CpuMhz = 2600, Summary_Hardware_NumCpuCores = 8,
      Summary_QuickStats_OverallCpuUsage = 1200, Summary_QuickStats_OverallMemoryUsage = 2048,
      Summary_Runtime_ConnectionState = ''connected''\<rparr>"

definition exampleDatastore :: Datastore where
  "exampleDatastore =
     \<lparr>Summary_Name = ''ds1'', Summary_Capacity = 1000000000000,
      Summary_FreeSpace = 250000000000, Summary_Accessible = False\<rparr>"

definition exampleDatastoreHandle :: DatastoreHandle where
  "exampleDatastoreHandle = \<lparr>datastore_Reference = ''Datastore:datastore-1'', datastore_Name = ''ds1''\<rparr>"

definition exampleHostHandle :: "string \<Rightarrow> HostHandle" where
  "exampleHostHandle ref = \<lparr>host_Reference = ref, host_Name = ''esx1'', host_Properties = Inr exampleHost\<rparr>"

text \<open>A cluster of one host, a cluster of two hosts and a cluster without hosts.\<close>

definition oneHostCluster :: ClusterComputeResource where
  "oneHostCluster =
     \<lparr>cluster_Name = ''cl1'',
      cluster_Hosts = Inr [exampleHostHandle ''HostSystem:host-1''],
      cluster_Retrieve = Inr [exampleHost]\<rparr>"

definition twoHostCluster :: ClusterComputeResource where
  "twoHostCluster =
     \<lparr>cluster_Name = ''cl2'',
      cluster_Hosts = Inr [exampleHostHandle ''HostSystem:host-1'', exampleHostHandle ''HostSystem:host-2''],
      cluster_Retrieve = Inr [exampleHost, exampleHost]\<rparr>"

definition emptyCluster :: ClusterComputeResource where
  "emptyCluster = \<lparr>cluster_Name = ''cl0'', cluster_Hosts = Inr [], cluster_Retrieve = Inr []\<rparr>"

text \<open>A datacenter whose cluster listing fails and whose datastore is retrieved; a
  datacenter without clusters and datastores; a datacenter whose only cluster is empty;
  a datacenter with one host in one cluster and one datastore.\<close>

definition degradedDatacenter :: Datacenter where
  "degradedDatacenter =
     \<lparr>dc_Name = ''dc1'',
      dc_ClusterComputeResourceList = Inl (Error ''ServerFaultCode: permission denied''),
      dc_DatastoreList = Inr [exampleDatastoreHandle],
      dc_DatastoreRetrieve = Inr [exampleDatastore]\<rparr>"

definition emptyDatacenter :: Datacenter where
  "emptyDatacenter =
     \<lparr>dc_Name = ''dc0'', dc_ClusterComputeResourceList = Inr [],
      dc_DatastoreList = Inr [], dc_DatastoreRetrieve = Inr []\<rparr>"

definition emptyClusterDatacenter :: Datacenter where
  "emptyClusterDatacenter =
     \<lparr>dc_Name = ''dc2'', dc_ClusterComputeResourceList = Inr [emptyCluster],
      dc_DatastoreList = Inr [], dc_DatastoreRetrieve = Inr []\<rparr>"

definition fullDatacenter :: Datacenter where
  "fullDatacenter =
     \<lparr>dc_Name = ''dc3'', dc_ClusterComputeResourceList = Inr [oneHostCluster],
      dc_DatastoreList = Inr [exampleDatastoreHandle],
      dc_DatastoreRetrieve = Inr [exampleDatastore]\<rparr>"

definition startedExporter :: Exporter where
  "startedExporter = the (NewExporter None None None)"

section \<open>Registry lookups\<close>

lemma hostMetricGetterFuncRegistry_lookups:
  "hostMetricGetterFuncRegistry ''getMemorySize'' = Some getMemorySize"
  "hostMetricGetterFuncRegistry ''getMemoryUsage'' = Some getMemoryUsage"
  "hostMetricGetterFuncRegistry ''getCPUTotal'' = Some getCPUTotal"
  "hostMetricGetterFuncRegistry ''getCpuUsage'' = Some getCpuUsage"
  "hostMetricGetterFuncRegistry ''getConnectedState'' = Some getConnectedState"
  "hostMetricGetterFuncRegistry ''getDisconnectedState'' = Some getDisconnectedState"
  "hostMetricGetterFuncRegistry ''getNotRespondingState'' = Some getNotRespondingState"
  by (simp_all add: hostMetricGetterFuncRegistry_def)

lemma datastoreMetricGetterFuncRegistry_lookups:
  "datastoreMetricGetterFuncRegistry ''getCapacity'' = Some getCapacity"
  "datastoreMetricGetterFuncRegistry ''getFreeSpace'' = Some getFreeSpace"
  "datastoreMetricGetterFuncRegistry ''getAccessibility'' = Some getAccessibility"
  by (simp_all add: datastoreMetricGetterFuncRegistry_def)

lemma float64_of_int_small: "\<bar>x\<bar> \<le> 2 ^ 53 \<Longrightarrow> float64_of_int x = x"
  by (simp add: float64_of_int_def)

section \<open>Interleavings\<close>

text \<open>An interleaving holds the events of its tasks, each as often as the tasks do, and
  the tasks run one after the other form an interleaving.\<close>

lemma mset_concat_update:
  "i < length ts \<Longrightarrow> ts ! i = x # rest \<Longrightarrow> mset (concat ts) = add_mset x (mset (concat (ts[i := rest])))"
proof (induction ts arbitrary: i)
  case Nil
  then show ?case by simp
next
  case (Cons t ts)
  show ?case
  proof (cases i)
    case 0
    with Cons.prems show ?thesis by simp
  next
    case (Suc j)
    with Cons.prems have "mset (concat ts) = add_mset x (mset (concat (ts[j := rest])))"
      by (intro Cons.IH) simp_all
    with Suc show ?thesis by simp
  qed
qed

lemma interleaving_mset: "interleaving ts tr \<Longrightarrow> mset tr = mset (concat ts)"
proof (induction rule: interleaving.induct)
  case (finished ts)
  then have "concat ts = []" by simp
  then show ?case by simp
next
  case (step i ts x rest tr)
  then show ?case by (simp add: mset_concat_update)
qed

lemma interleaving_set: "interleaving ts tr \<Longrightarrow> set tr = set (concat ts)"
  by (drule interleaving_mset) (rule mset_eq_setD)

lemma interleaving_Nil_Cons: "interleaving ts tr \<Longrightarrow> interleaving ([] # ts) tr"
proof (induction rule: interleaving.induct)
  case (finished ts)
  then show ?case by (intro interleaving.finished) simp
next
  case (step i ts x rest tr)
  have "Suc i < length ([] # ts)" "([] # ts) ! Suc i = x # rest"
    "interleaving (([] # ts)[Suc i := rest]) tr"
    using step by simp_all
  then show ?case by (rule interleaving.step)
qed

lemma interleaving_Cons_Cons: "interleaving (t # ts) tr \<Longrightarrow> interleaving ((x # t) # ts) (x # tr)"
  by (rule interleaving.step [where i = 0 and rest = t]) simp_all

lemma interleaving_append: "interleaving ts tr \<Longrightarrow> interleaving (t # ts) (t @ tr)"
  by (induction t) (simp_all add: interleaving_Nil_Cons interleaving_Cons_Cons)

lemma interleaving_concat: "interleaving ts (concat ts)"
proof (induction ts)
  case Nil
  show ?case by (simp add: interleaving.finished)
next
  case (Cons t ts)
  then show ?case by (simp add: interleaving_append)
qed

section \<open>The events of the tasks\<close>

lemma hostMetrics_member:
  assumes "metric \<in> set (hostMetrics names)"
  shows "prefix esxiMetricPrefix (fqName (h_desc metric))"
    and "variableLabels (h_desc metric) = names"
    and "h_labelsGetter metric = [getHostName]"
  using assms
  by (auto simp: hostMetrics_def newVsphereHostMetric_def NewDesc_def esxiMetricPrefix_def
      hostLabelValues_def hostLabelGetterFuncRegistry_def)

lemma datastoreMetrics_member:
  assumes "metric \<in> set (datastoreMetrics names)"
  shows "prefix datastoreMetricPrefix (fqName (d_desc metric))"
    and "variableLabels (d_desc metric) = names"
    and "d_labelsGetter metric = [getDatastoreName]"
  using assms
  by (auto simp: datastoreMetrics_def newVsphereDatastoreMetric_def NewDesc_def
      datastoreMetricPrefix_def datastoreLabelValues_def datastoreLabelGetterFuncRegistry_def)

lemma collectHostMetricFromCluster_events:
  "ev \<in> set (collectHostMetricFromCluster n c) \<Longrightarrow> walkEvent ev"
  by (auto simp: collectHostMetricFromCluster_def walkEvent_def objectSample_def labelsMatch_def
      MustNewConstMetric_def hostLabelValuesOf_def hostMetrics_member hostLabelNames_def
      split: sum.splits if_splits)

lemma collectDatastoreMetrics_events:
  "ev \<in> set (collectDatastoreMetrics dc) \<Longrightarrow> walkEvent ev"
  by (auto simp: collectDatastoreMetrics_def walkEvent_def objectSample_def labelsMatch_def
      MustNewConstMetric_def datastoreLabelValuesOf_def datastoreMetrics_member
      datastoreLabelNames_def split: sum.splits if_splits)

lemma collectHostMetrics_events:
  "collectHostMetrics dc tr \<Longrightarrow> ev \<in> set tr \<Longrightarrow> walkEvent ev"
  by (auto simp: collectHostMetrics_def dest!: interleaving_set
      dest: collectHostMetricFromCluster_events split: sum.splits)

lemma pollTasks_events:
  "list_all2 collectHostMetrics datacenters hostTraces \<Longrightarrow>
   \<forall>t \<in> set (pollTasks hostTraces datacenters). \<forall>ev \<in> set t. walkEvent ev"
proof (induction rule: list_all2_induct)
  case Nil
  then show ?case by (simp add: pollTasks_def)
next
  case (Cons dc dcs ht hts)
  have "pollTasks (ht # hts) (dc # dcs) = ht # collectDatastoreMetrics dc # pollTasks hts dcs"
    by (simp add: pollTasks_def)
  with Cons show ?case
    by (auto dest: collectHostMetrics_events collectDatastoreMetrics_events)
qed

lemma poll_events:
  assumes "list_all2 collectHostMetrics datacenters hostTraces"
    and "interleaving (pollTasks hostTraces datacenters) tr"
  shows "\<forall>ev \<in> set tr. walkEvent ev"
  using pollTasks_events [OF assms(1)] interleaving_set [OF assms(2)] by auto

lemma writes_Nil: "\<forall>ev \<in> set tr. walkEvent ev \<Longrightarrow> writes tr = []"
  by (induction tr) (auto simp: writes_def walkEvent_def split: event.splits)

lemma emitted_objectSample:
  "\<forall>ev \<in> set tr. walkEvent ev \<Longrightarrow> \<forall>s \<in> set (emitted tr). objectSample s"
  by (induction tr) (auto simp: emitted_def walkEvent_def split: event.splits)

section \<open>The value-extraction functions\<close>

text \<open>
  Claim C3.  For every host snapshot with memory size 17179869184 bytes, memory usage
  2048 MiB, CPU clock 2600 MHz, 8 cores, CPU usage 1200 MHz and connection state
  "connected", the getters registered for the seven host metrics yield 17179869184,
  2147483648, 20800, 1200, 1, 0 and 0; for every datastore snapshot with capacity
  1000000000000 bytes, free space 250000000000 bytes and accessible = false, the getters
  registered for the three datastore metrics yield 1000000000000, 250000000000 and 0.
\<close>

theorem scenario_values:
  assumes "Summary_Hardware_MemorySize h = 17179869184"
    and "Summary_QuickStats_OverallMemoryUsage h = 2048"
    and "Summary_Hardware_CpuMhz h = 2600"
    and "Summary_Hardware_NumCpuCores h = 8"
    and "Summary_QuickStats_OverallCpuUsage h = 1200"
    and "Summary_Runtime_ConnectionState h = ''connected''"
    and "Summary_Capacity d = 1000000000000"
    and "Summary_FreeSpace d = 250000000000"
    and "Summary_Accessible d = False"
  shows "map (\<lambda>metric. (fqName (h_desc metric), h_metricGetter metric h)) (hostMetrics names) =
           [(''esxi_memory_total_bytes'', 17179869184),
            (''esxi_memory_usage_bytes'', 2147483648),
            (''esxi_cpu_total_mhz'', 20800),
            (''esxi_cpu_usage_mhz'', 1200),
            (''esxi_connected_state'', 1),
            (''esxi_disconnected_state'', 0),
            (''esxi_not_responding_state'', 0)]
       \<and> map (\<lambda>metric. (fqName (d_desc metric), d_metricGetter metric d)) (datastoreMetrics names') =
           [(''datastore_capacity_bytes'', 1000000000000),
            (''datastore_free_space_bytes'', 250000000000),
            (''datastore_accessibility'', 0)]"
  using assms
  by (simp add: hostMetrics_def datastoreMetrics_def newVsphereHostMetric_def
      newVsphereDatastoreMetric_def NewDesc_def esxiMetricPrefix_def datastoreMetricPrefix_def
      hostMetricGetterFuncRegistry_lookups datastoreMetricGetterFuncRegistry_lookups
      getMemorySize_def getMemoryUsage_def getCPUTotal_def getCpuUsage_def
      getConnectedState_def getDisconnectedState_def getNotRespondingState_def
      getCapacity_def getFreeSpace_def getAccessibility_def
      float64_of_int64_def float64_of_int32_def float64_of_int_small)

theorem scenario_values_witness:
  "map (\<lambda>metric. h_metricGetter metric
          \<lparr>Summary_Config_Name = ''esx1'', Summary_Hardware_MemorySize = 17179869184,
           Summary_Hardware_CpuMhz = 2600, Summary_Hardware_NumCpuCores = 8,
           Summary_QuickStats_OverallCpuUsage = 1200,
           Summary_QuickStats_OverallMemoryUsage = 2048,
           Summary_Runtime_ConnectionState = ''connected''\<rparr>) (hostMetrics hostLabelNames)
     = [17179869184, 2147483648, 20800, 1200, 1, 0, 0]
   \<and> map (\<lambda>metric. d_metricGetter metric
          \<lparr>Summary_Name = ''ds1'', Summary_Capacity = 1000000000000,
           Summary_FreeSpace = 250000000000, Summary_Accessible = False\<rparr>)
        (datastoreMetrics datastoreLabelNames)
     = [1000000000000, 250000000000, 0]"
  using scenario_values [of
      "\<lparr>Summary_Config_Name = ''esx1'', Summary_Hardware_MemorySize = 17179869184,
        Summary_Hardware_CpuMhz = 2600, Summary_Hardware_NumCpuCores = 8,
        Summary_QuickStats_OverallCpuUsage = 1200,
        Summary_QuickStats_OverallMemoryUsage = 2048,
        Summary_Runtime_ConnectionState = ''connected''\<rparr>"
      "\<lparr>Summary_Name = ''ds1'', Summary_Capacity = 1000000000000,
        Summary_FreeSpace = 250000000000, Summary_Accessible = False\<rparr>"
      hostLabelNames datastoreLabelNames]
  by (simp add: hostMetrics_def datastoreMetrics_def newVsphereHostMetric_def
      newVsphereDatastoreMetric_def)

text \<open>
  Claim C7.  For every host snapshot, each of the three state getters (connected,
  disconnected, not responding) returns 0 or 1, and at most one of the three returns 1.
\<close>

theorem state_flags_exclusive:
  "(getConnectedState h = 0 \<or> getConnectedState h = 1)
   \<and> (getDisconnectedState h = 0 \<or> getDisconnectedState h = 1)
   \<and> (getNotRespondingState h = 0 \<or> getNotRespondingState h = 1)
   \<and> length (filter (\<lambda>v. v = 1)
        [the (hostMetricGetterFuncRegistry ''getConnectedState'') h,
         the (hostMetricGetterFuncRegistry ''getDisconnectedState'') h,
         the (hostMetricGetterFuncRegistry ''getNotRespondingState'') h]) \<le> 1"
  by (simp add: hostMetricGetterFuncRegistry_lookups
      getConnectedState_def getDisconnectedState_def getNotRespondingState_def)

section \<open>Polls\<close>

lemma Collect_up_unchanged: "Collect listing e (stream, e') \<Longrightarrow> up e' = up e"
  by (erule Collect.cases) auto

lemma reachable_up:
  "reachable e \<Longrightarrow> up e = NewGauge namespace ''up'' ''Was the last scrape of vCenter metrics success''"
proof (induction rule: reachable.induct)
  case (started a b c e)
  then show ?case by (auto simp: NewExporter_def split: if_splits)
next
  case (polled e listing stream e')
  then show ?case by (simp add: Collect_up_unchanged)
qed

lemma upMetric_eval:
  "gaugeMetric (NewGauge namespace ''up'' ''Was the last scrape of vCenter metrics success'') =
     \<lparr>metricDesc = NewDesc ''vsphere_up'' ''Was the last scrape of vCenter metrics success'' [],
      metricValue = 0, labelValues = []\<rparr>"
  by (simp add: gaugeMetric_def NewGauge_def BuildFQName_def namespace_def)

lemma startedExporter_eq:
  "NewExporter None None None = Some startedExporter"
  by (simp add: startedExporter_def NewExporter_def)

lemma reachable_startedExporter: "reachable startedExporter"
  by (rule reachable.started [OF startedExporter_eq])

text \<open>
  Claim C10.  The up gauge \<open>vsphere_up\<close> is the first sample of every \<open>Collect\<close>; nothing
  assigns it a value after \<open>NewExporter\<close>, so every poll leaves it unchanged and it always
  reports 0, whether the datacenter listing succeeds or fails.
\<close>
theorem up_gauge_first_and_constant:
  assumes "reachable e" and "Collect listing e (stream, e')"
  shows "stream \<noteq> [] \<and>
         hd stream = \<lparr>metricDesc = NewDesc ''vsphere_up'' ''Was the last scrape of vCenter metrics success'' [],
                      metricValue = 0, labelValues = []\<rparr> \<and>
         up e' = up e"
  using assms(2) reachable_up [OF assms(1)]
  by (auto elim!: Collect.cases simp: upMetric_eval)

theorem up_gauge_first_and_constant_witness:
  "reachable startedExporter \<and>
   Collect (Inl (Error ''timeout'')) startedExporter
     ([gaugeMetric (up startedExporter)], startedExporter\<lparr>vcenterAvailable := 0\<rparr>) \<and>
   metricValue (hd [gaugeMetric (up startedExporter)]) = 0 \<and>
   fqName (metricDesc (hd [gaugeMetric (up startedExporter)])) = ''vsphere_up''"
  using up_gauge_first_and_constant [OF reachable_startedExporter
      Collect_listing_failed [of "Error ''timeout''" startedExporter]]
    reachable_startedExporter Collect_listing_failed [of "Error ''timeout''" startedExporter]
  by (simp add: NewDesc_def)

text \<open>
  Claim C1 says that a poll whose datacenter listing fails emits exactly one sample, the
  availability sample with value 0.  The code sets \<open>e.vcenterAvailable\<close> to 0 and returns
  before it reaches the statement that sends the availability sample: the only result of
  such a poll is the stream that holds the up gauge \<open>vsphere_up\<close> alone, and that sample
  is not a sample of the availability descriptor.
\<close>
theorem listing_failure_emits_up_only:
  "Collect (Inl err) e r = (r = ([gaugeMetric (up e)], e\<lparr>vcenterAvailable := 0\<rparr>))
   \<and> Collect (Inl err) startedExporter r =
       (r = ([\<lparr>metricDesc = NewDesc ''vsphere_up'' ''Was the last scrape of vCenter metrics success'' [],
               metricValue = 0, labelValues = []\<rparr>],
             startedExporter\<lparr>vcenterAvailable := 0\<rparr>))
   \<and> metricDesc (gaugeMetric (up startedExporter)) \<noteq> vcenterAvailableDesc"
proof -
  have a: "\<And>e. Collect (Inl err) e r = (r = ([gaugeMetric (up e)], e\<lparr>vcenterAvailable := 0\<rparr>))"
    by (auto elim: Collect.cases intro: Collect_listing_failed)
  have b: "gaugeMetric (up startedExporter) =
      \<lparr>metricDesc = NewDesc ''vsphere_up'' ''Was the last scrape of vCenter metrics success'' [],
               metricValue = 0, labelValues = []\<rparr>"
    using reachable_up [OF reachable_startedExporter] by (simp add: upMetric_eval)
  have c: "metricDesc (gaugeMetric (up startedExporter)) \<noteq> vcenterAvailableDesc"
    by (simp add: b vcenterAvailableDesc_def NewDesc_def)
  show ?thesis using a [of e] a [of startedExporter] b c by simp
qed

lemma poll_no_writes:
  assumes "list_all2 collectHostMetrics datacenters hostTraces"
    and "interleaving (pollTasks hostTraces datacenters) tr"
  shows "availableAfter 1 tr = 1"
  using writes_Nil [OF poll_events [OF assms]] by (simp add: availableAfter_def)

lemma objectSample_name: "objectSample s \<Longrightarrow> fqName (metricDesc s) \<noteq> ''vcenter_available''"
  by (auto simp: objectSample_def esxiMetricPrefix_def datastoreMetricPrefix_def)

lemma filter_emitted_available:
  assumes "\<forall>ev \<in> set tr. walkEvent ev"
  shows "filter (\<lambda>s. fqName (metricDesc s) = ''vcenter_available'') (emitted tr) = []"
  using emitted_objectSample [OF assms] by (auto simp: filter_empty_conv dest: objectSample_name)

text \<open>
  Claim C5.  In every poll whose datacenter listing succeeds, the availability sample is
  the last sample of the stream and occurs exactly once; before it the stream holds the
  up gauge and the samples of a complete run of all the tasks of the poll, so no object
  sample follows it.
\<close>
theorem availability_sample_last:
  assumes "reachable e" and "Collect (Inr datacenters) e (stream, e')"
  shows "last stream = MustNewConstMetric vcenterAvailableDesc (vcenterAvailable e') [] \<and>
         length (filter (\<lambda>s. fqName (metricDesc s) = ''vcenter_available'') stream) = 1 \<and>
         (\<exists>hostTraces tr.
            list_all2 collectHostMetrics datacenters hostTraces \<and>
            interleaving (pollTasks hostTraces datacenters) tr \<and>
            stream = gaugeMetric (up e) # emitted tr @ [last stream])"
  using assms(2)
proof (cases rule: Collect.cases)
  case (Collect_listing_done hostTraces tr available)
  have ev: "\<forall>ev \<in> set tr. walkEvent ev"
    using Collect_listing_done(3,4) by (rule poll_events)
  have up: "fqName (metricDesc (gaugeMetric (up e))) = ''vsphere_up''"
    using reachable_up [OF assms(1)] by (simp add: upMetric_eval NewDesc_def)
  have l: "last stream = MustNewConstMetric vcenterAvailableDesc (vcenterAvailable e') []"
    using Collect_listing_done by simp
  have av: "fqName (metricDesc (MustNewConstMetric vcenterAvailableDesc available [])) = ''vcenter_available''"
    by (simp add: MustNewConstMetric_def vcenterAvailableDesc_def NewDesc_def)
  have c: "length (filter (\<lambda>s. fqName (metricDesc s) = ''vcenter_available'') stream) = 1"
    using Collect_listing_done(1) up av filter_emitted_available [OF ev] by simp
  have "stream = gaugeMetric (up e) # emitted tr @ [last stream]"
    using Collect_listing_done by simp
  with Collect_listing_done(3,4) l c show ?thesis by blast
qed

lemma sequential_run:
  assumes "list_all2 collectHostMetrics datacenters hostTraces"
  shows "Collect (Inr datacenters) e
           (gaugeMetric (up e) # emitted (concat (pollTasks hostTraces datacenters))
              @ [MustNewConstMetric vcenterAvailableDesc 1 []],
            e\<lparr>vcenterAvailable := 1\<rparr>)"
proof -
  have i: "interleaving (pollTasks hostTraces datacenters) (concat (pollTasks hostTraces datacenters))"
    by (rule interleaving_concat)
  have "availableAfter 1 (concat (pollTasks hostTraces datacenters)) = 1"
    using assms i by (rule poll_no_writes)
  with Collect_listing_done [OF assms i, of 1 e] show ?thesis by simp
qed

lemma collectHostMetrics_sequential:
  "collectHostMetrics dc
     (case dc_ClusterComputeResourceList dc of
        Inl err \<Rightarrow> []
      | Inr clusters \<Rightarrow> concat (map (collectHostMetricFromCluster (dc_Name dc)) clusters))"
  by (simp add: collectHostMetrics_def interleaving_concat split: sum.splits)

lemma hostTraces_exist: "\<exists>hostTraces. list_all2 collectHostMetrics datacenters hostTraces"
proof (induction datacenters)
  case Nil
  show ?case by simp
next
  case (Cons dc dcs)
  then obtain hts where "list_all2 collectHostMetrics dcs hts" by blast
  with collectHostMetrics_sequential [of dc] have "list_all2 collectHostMetrics (dc # dcs)
      ((case dc_ClusterComputeResourceList dc of
        Inl err \<Rightarrow> []
      | Inr clusters \<Rightarrow> concat (map (collectHostMetricFromCluster (dc_Name dc)) clusters)) # hts)"
    by simp
  then show ?case by blast
qed

lemma Collect_completes: "\<exists>stream e'. Collect listing e (stream, e')"
proof (cases listing)
  case (Inl err)
  then show ?thesis using Collect_listing_failed by blast
next
  case (Inr datacenters)
  obtain hts where "list_all2 collectHostMetrics datacenters hts"
    using hostTraces_exist by blast
  from sequential_run [OF this] Inr show ?thesis by blast
qed

lemma Collect_done_available:
  assumes "Collect (Inr datacenters) e (stream, e')"
  shows "vcenterAvailable e' = 1" and "last stream = MustNewConstMetric vcenterAvailableDesc 1 []"
  using assms by (auto elim!: Collect.cases simp: poll_no_writes)

lemma fullDatacenter_hostTraces:
  "list_all2 collectHostMetrics [fullDatacenter] [collectHostMetricFromCluster ''dc3'' oneHostCluster]"
  using collectHostMetrics_sequential [of fullDatacenter] by (simp add: fullDatacenter_def)

theorem availability_sample_last_witness:
  "\<exists>stream e'. Collect (Inr [fullDatacenter]) startedExporter (stream, e')
     \<and> last stream = MustNewConstMetric vcenterAvailableDesc 1 []
     \<and> length (filter (\<lambda>s. fqName (metricDesc s) = ''vcenter_available'') stream) = 1"
proof -
  let ?stream = "gaugeMetric (up startedExporter)
      # emitted (concat (pollTasks [collectHostMetricFromCluster ''dc3'' oneHostCluster] [fullDatacenter]))
      @ [MustNewConstMetric vcenterAvailableDesc 1 []]"
  have run: "Collect (Inr [fullDatacenter]) startedExporter
      (?stream, startedExporter\<lparr>vcenterAvailable := 1\<rparr>)"
    by (rule sequential_run [OF fullDatacenter_hostTraces])
  from availability_sample_last [OF reachable_startedExporter run]
  have "last ?stream = MustNewConstMetric vcenterAvailableDesc 1 []"
    and "length (filter (\<lambda>s. fqName (metricDesc s) = ''vcenter_available'') ?stream) = 1"
    by simp_all
  with run show ?thesis by blast
qed

text \<open>
  Claim C9.  A poll whose datacenter listing succeeds always completes, and its
  availability value is 1.  The host task of a datacenter with zero clusters, the task
  of a cluster with zero hosts and the datastore task of a datacenter with zero
  datastores do nothing at all: they send no sample.
\<close>
theorem empty_partitions_emit_nothing:
  "(\<exists>stream e'. Collect (Inr datacenters) e (stream, e'))
   \<and> (\<forall>stream e'. Collect (Inr datacenters) e (stream, e') \<longrightarrow>
         vcenterAvailable e' = 1 \<and> last stream = MustNewConstMetric vcenterAvailableDesc 1 [])
   \<and> (dc_ClusterComputeResourceList dc = Inr [] \<longrightarrow> (\<forall>tr. collectHostMetrics dc tr = (tr = [])))
   \<and> (cluster_Hosts cluster = Inr [] \<longrightarrow> collectHostMetricFromCluster datacenterName cluster = [])
   \<and> (dc_DatastoreList dc = Inr [] \<longrightarrow> collectDatastoreMetrics dc = [])"
proof -
  have "dc_ClusterComputeResourceList dc = Inr [] \<longrightarrow> (\<forall>tr. collectHostMetrics dc tr = (tr = []))"
    by (auto simp: collectHostMetrics_def elim: interleaving.cases intro: interleaving.finished)
  moreover have "cluster_Hosts cluster = Inr [] \<longrightarrow> collectHostMetricFromCluster datacenterName cluster = []"
    by (simp add: collectHostMetricFromCluster_def)
  moreover have "dc_DatastoreList dc = Inr [] \<longrightarrow> collectDatastoreMetrics dc = []"
    by (simp add: collectDatastoreMetrics_def)
  ultimately show ?thesis
    using Collect_completes [of "Inr datacenters" e] Collect_done_available [of datacenters e]
    by blast
qed

lemma emptyDatacenters_hostTraces:
  "list_all2 collectHostMetrics [emptyDatacenter, emptyClusterDatacenter] [[], []]"
  using collectHostMetrics_sequential [of emptyDatacenter]
    collectHostMetrics_sequential [of emptyClusterDatacenter]
  by (simp add: emptyDatacenter_def emptyClusterDatacenter_def emptyCluster_def
      collectHostMetricFromCluster_def)

theorem empty_partitions_emit_nothing_witness:
  "Collect (Inr [emptyDatacenter, emptyClusterDatacenter]) startedExporter
     ([gaugeMetric (up startedExporter), MustNewConstMetric vcenterAvailableDesc 1 []],
      startedExporter\<lparr>vcenterAvailable := 1\<rparr>)
   \<and> vcenterAvailable (startedExporter\<lparr>vcenterAvailable := 1\<rparr>) = 1
   \<and> dc_ClusterComputeResourceList emptyDatacenter = Inr []
   \<and> collectHostMetrics emptyDatacenter []
   \<and> cluster_Hosts emptyCluster = Inr []
   \<and> collectHostMetricFromCluster ''dc2'' emptyCluster = []
   \<and> dc_DatastoreList emptyDatacenter = Inr []
   \<and> collectDatastoreMetrics emptyDatacenter = []"
proof -
  have run: "Collect (Inr [emptyDatacenter, emptyClusterDatacenter]) startedExporter
     ([gaugeMetric (up startedExporter), MustNewConstMetric vcenterAvailableDesc 1 []],
      startedExporter\<lparr>vcenterAvailable := 1\<rparr>)"
    using sequential_run [OF emptyDatacenters_hostTraces, of startedExporter]
    by (simp add: pollTasks_def emitted_def collectDatastoreMetrics_def emptyDatacenter_def
        emptyClusterDatacenter_def)
  have h: "dc_ClusterComputeResourceList emptyDatacenter = Inr []"
    "cluster_Hosts emptyCluster = Inr []" "dc_DatastoreList emptyDatacenter = Inr []"
    by (simp_all add: emptyDatacenter_def emptyCluster_def)
  from empty_partitions_emit_nothing
    [of "[emptyDatacenter, emptyClusterDatacenter]" startedExporter emptyDatacenter emptyCluster "''dc2''"]
    run h
  show ?thesis by simp
qed

section \<open>Labels, names and calls\<close>

lemma set_emitted: "s \<in> set (emitted tr) \<longleftrightarrow> Emit s \<in> set tr"
  by (induction tr) (auto simp: emitted_def split: event.splits)

lemma collectHostMetrics_view_samples:
  "s \<in> set (emitted (collectHostMetrics_view retrieved)) \<Longrightarrow> objectSample s"
  by (auto simp: set_emitted collectHostMetrics_view_def objectSample_def labelsMatch_def
      MustNewConstMetric_def hostLabelValuesOf_def hostMetrics_member hostLabelNames_view_def
      split: sum.splits)

lemma collectDatastoreMetrics_view_samples:
  "s \<in> set (emitted (collectDatastoreMetrics_view retrieved)) \<Longrightarrow> objectSample s"
  by (auto simp: set_emitted collectDatastoreMetrics_view_def objectSample_def labelsMatch_def
      MustNewConstMetric_def datastoreLabelValuesOf_def datastoreMetrics_member
      datastoreLabelNames_view_def split: sum.splits)

lemma collectHostMetrics_each_host_samples:
  "Emit s \<in> set (collectHostMetrics_each_host n c host) \<Longrightarrow> objectSample s"
  by (auto simp: collectHostMetrics_each_host_def objectSample_def labelsMatch_def Let_def
      MustNewConstMetric_def hostLabelValuesOf_def hostMetrics_member hostLabelNames_each_def)

lemma collectHostMetrics_each_clusters_Cons:
  "collectHostMetrics_each_clusters n (c # clusters) =
     (case cluster_Hosts c of
        Inl err \<Rightarrow> []
      | Inr hs \<Rightarrow>
          concat (map (collectHostMetrics_each_host n c) hs)
          @ collectHostMetrics_each_clusters n clusters)"
  by (simp add: goResult_def split: sum.splits)

lemma collectHostMetrics_each_clusters_samples:
  "Emit s \<in> set (collectHostMetrics_each_clusters n clusters) \<Longrightarrow> objectSample s"
  by (induction clusters)
    (auto simp: collectHostMetrics_each_clusters_Cons
      simp del: collectHostMetrics_each_clusters.simps(2)
      split: sum.splits dest: collectHostMetrics_each_host_samples)

lemma collectHostMetrics_each_samples:
  "s \<in> set (emitted (collectHostMetrics_each dc)) \<Longrightarrow> objectSample s"
  by (auto simp: set_emitted collectHostMetrics_each_def split: sum.splits
      dest: collectHostMetrics_each_clusters_samples)

lemma objectSample_labelsMatch: "objectSample s \<Longrightarrow> labelsMatch s"
  by (simp add: objectSample_def)

lemma Collect_stream_labelsMatch:
  assumes "reachable e" and "Collect listing e (stream, e')" and "s \<in> set stream"
  shows "labelsMatch s"
proof -
  have up: "labelsMatch (gaugeMetric (up e))"
    using reachable_up [OF assms(1)] by (simp add: upMetric_eval labelsMatch_def NewDesc_def)
  have av: "\<And>v. labelsMatch (MustNewConstMetric vcenterAvailableDesc v [])"
    by (simp add: labelsMatch_def MustNewConstMetric_def vcenterAvailableDesc_def NewDesc_def)
  from assms(2) show ?thesis
  proof (cases rule: Collect.cases)
    case (Collect_listing_failed err)
    with assms(3) up show ?thesis by simp
  next
    case (Collect_listing_done datacenters hostTraces tr available)
    from Collect_listing_done have l: "list_all2 collectHostMetrics datacenters hostTraces"
      and i: "interleaving (pollTasks hostTraces datacenters) tr"
      and st: "stream = gaugeMetric (up e) # emitted tr
                 @ [MustNewConstMetric vcenterAvailableDesc available []]"
      by simp_all
    have "\<forall>s \<in> set (emitted tr). objectSample s"
      using poll_events [OF l i] by (rule emitted_objectSample)
    with st assms(3) up av show ?thesis
      by (auto dest: objectSample_labelsMatch)
  qed
qed

text \<open>
  Claim C4.  Every sample of every poll carries as many label values as its descriptor
  declares label names.  For each host metric the values of its label getters followed by
  the datacenter name and the cluster name are as many as the host label names, and for
  each datastore metric the values of its label getters followed by the datacenter name
  are as many as the datastore label names; the same holds for the samples of the other
  texts of the collection functions.
\<close>
theorem label_counts_match:
  assumes "reachable e" and "Collect listing e (stream, e')"
  shows "(\<forall>s \<in> set stream. labelsMatch s)
     \<and> (\<forall>metric \<in> set (hostMetrics hostLabelNames).
           length (hostLabelValuesOf metric h @ [datacenterName] @ [clusterName])
             = length (variableLabels (h_desc metric)))
     \<and> (\<forall>metric \<in> set (datastoreMetrics datastoreLabelNames).
           length (datastoreLabelValuesOf metric d @ [datacenterName])
             = length (variableLabels (d_desc metric)))
     \<and> (\<forall>s \<in> set (emitted (collectHostMetrics_view retrievedHosts)). labelsMatch s)
     \<and> (\<forall>s \<in> set (emitted (collectHostMetrics_each dc)). labelsMatch s)
     \<and> (\<forall>s \<in> set (emitted (collectDatastoreMetrics_view retrievedDatastores)). labelsMatch s)"
proof -
  have "\<forall>s \<in> set stream. labelsMatch s"
    using Collect_stream_labelsMatch [OF assms] by blast
  moreover have "\<forall>metric \<in> set (hostMetrics hostLabelNames).
           length (hostLabelValuesOf metric h @ [datacenterName] @ [clusterName])
             = length (variableLabels (h_desc metric))"
    by (simp add: hostMetrics_member hostLabelValuesOf_def hostLabelNames_def)
  moreover have "\<forall>metric \<in> set (datastoreMetrics datastoreLabelNames).
           length (datastoreLabelValuesOf metric d @ [datacenterName])
             = length (variableLabels (d_desc metric))"
    by (simp add: datastoreMetrics_member datastoreLabelValuesOf_def datastoreLabelNames_def)
  ultimately show ?thesis
    by (auto dest: objectSample_labelsMatch collectHostMetrics_view_samples
        collectHostMetrics_each_samples collectDatastoreMetrics_view_samples)
qed

theorem label_counts_match_witness:
  "\<exists>stream e'. Collect (Inr [fullDatacenter]) startedExporter (stream, e')
     \<and> length stream = 12 \<and> list_all labelsMatch stream
     \<and> length (hostLabelValuesOf (hd (hostMetrics hostLabelNames)) exampleHost @ [''dc3''] @ [''cl1'']) = 3
     \<and> length (variableLabels (h_desc (hd (hostMetrics hostLabelNames)))) = 3
     \<and> list_all labelsMatch (emitted (collectHostMetrics_view (Inr [exampleHost])))"
proof -
  let ?stream = "gaugeMetric (up startedExporter)
      # emitted (concat (pollTasks [collectHostMetricFromCluster ''dc3'' oneHostCluster] [fullDatacenter]))
      @ [MustNewConstMetric vcenterAvailableDesc 1 []]"
  have run: "Collect (Inr [fullDatacenter]) startedExporter
      (?stream, startedExporter\<lparr>vcenterAvailable := 1\<rparr>)"
    by (rule sequential_run [OF fullDatacenter_hostTraces])
  note t = label_counts_match [OF reachable_startedExporter run,
      of exampleHost "''dc3''" "''cl1''" exampleDatastore "Inr [exampleHost]" fullDatacenter
         "Inr [exampleDatastore]"]
  have len: "length ?stream = 12"
    by (simp add: pollTasks_def emitted_def collectHostMetricFromCluster_def
        collectDatastoreMetrics_def oneHostCluster_def fullDatacenter_def hostMetrics_def
        datastoreMetrics_def)
  have m: "hd (hostMetrics hostLabelNames) \<in> set (hostMetrics hostLabelNames)"
    by (simp add: hostMetrics_def)
  from t m have "length (hostLabelValuesOf (hd (hostMetrics hostLabelNames)) exampleHost @ [''dc3''] @ [''cl1''])
      = length (variableLabels (h_desc (hd (hostMetrics hostLabelNames))))"
    by blast
  moreover have "length (variableLabels (h_desc (hd (hostMetrics hostLabelNames)))) = 3"
    by (simp add: hostMetrics_def newVsphereHostMetric_def NewDesc_def hostLabelNames_def)
  moreover have "list_all labelsMatch ?stream"
    "list_all labelsMatch (emitted (collectHostMetrics_view (Inr [exampleHost])))"
    unfolding list_all_iff using t by blast+
  ultimately show ?thesis using run len
    by (intro exI [of _ ?stream] exI [of _ "startedExporter\<lparr>vcenterAvailable := 1\<rparr>"]) simp
qed

text \<open>
  Claim C8, amended.  Every host metric name begins with \<open>esxi_\<close>, every datastore metric
  name begins with \<open>datastore_\<close>, and the up gauge is named \<open>vsphere_up\<close>, with the
  namespace prefix; the availability gauge is named \<open>vcenter_available\<close>, without it.
\<close>
theorem metric_name_prefixes:
  "(\<forall>metric \<in> set (hostMetrics names). prefix ''esxi_'' (fqName (h_desc metric)))
   \<and> (\<forall>metric \<in> set (datastoreMetrics names'). prefix ''datastore_'' (fqName (d_desc metric)))
   \<and> (\<forall>e. reachable e \<longrightarrow> fqName (gaugeDesc (up e)) = ''vsphere_up'')
   \<and> fqName vcenterAvailableDesc = ''vcenter_available''"
proof -
  have "\<forall>e. reachable e \<longrightarrow> fqName (gaugeDesc (up e)) = ''vsphere_up''"
    by (auto dest!: reachable_up simp: NewGauge_def NewDesc_def BuildFQName_def namespace_def)
  then show ?thesis
    using hostMetrics_member(1) datastoreMetrics_member(1)
    by (simp add: esxiMetricPrefix_def datastoreMetricPrefix_def vcenterAvailableDesc_def NewDesc_def)
qed

theorem metric_name_prefixes_witness:
  "prefix ''esxi_'' (fqName (h_desc (hd (hostMetrics hostLabelNames))))
   \<and> prefix ''datastore_'' (fqName (d_desc (last (datastoreMetrics datastoreLabelNames))))
   \<and> reachable startedExporter
   \<and> prefix ''vsphere_'' (fqName (gaugeDesc (up startedExporter)))"
proof -
  have "hd (hostMetrics hostLabelNames) \<in> set (hostMetrics hostLabelNames)"
    "last (datastoreMetrics datastoreLabelNames) \<in> set (datastoreMetrics datastoreLabelNames)"
    by (simp_all add: hostMetrics_def datastoreMetrics_def)
  with metric_name_prefixes [of hostLabelNames datastoreLabelNames] reachable_startedExporter
  show ?thesis by auto
qed

text \<open>The availability sample of a poll is named without the namespace prefix.\<close>

theorem availability_name_counterexample:
  "Collect (Inr []) startedExporter
     ([gaugeMetric (up startedExporter), MustNewConstMetric vcenterAvailableDesc 1 []],
      startedExporter\<lparr>vcenterAvailable := 1\<rparr>)
   \<and> \<not> prefix ''vsphere_'' (fqName (metricDesc (MustNewConstMetric vcenterAvailableDesc 1 [])))"
proof -
  have "list_all2 collectHostMetrics [] []" by simp
  from sequential_run [OF this, of startedExporter] show ?thesis
    by (simp add: pollTasks_def emitted_def MustNewConstMetric_def vcenterAvailableDesc_def
        NewDesc_def)
qed

lemma calls_Cons [simp]:
  "calls (Call c # tr) = c # calls tr"
  "calls (Emit s # tr) = calls tr"
  "calls (SetAvailable v # tr) = calls tr"
  "calls [] = []"
  by (simp_all add: calls_def)

lemma calls_append [simp]: "calls (tr @ tr') = calls tr @ calls tr'"
  by (simp add: calls_def)

lemma calls_Emit_map [simp]: "calls (map (\<lambda>x. Emit (f x)) xs) = []"
  by (induction xs) simp_all

lemma calls_concat_Emit [simp]: "calls (concat (map (\<lambda>y. map (\<lambda>x. Emit (f y x)) xs) ys)) = []"
  by (induction ys) simp_all

lemma writes_Cons [simp]:
  "writes (Call c # tr) = writes tr"
  "writes (Emit s # tr) = writes tr"
  "writes (SetAvailable v # tr) = v # writes tr"
  "writes [] = []"
  by (simp_all add: writes_def)

lemma writes_append [simp]: "writes (tr @ tr') = writes tr @ writes tr'"
  by (simp add: writes_def)

lemma writes_Emit_map [simp]: "writes (map (\<lambda>x. Emit (f x)) xs) = []"
  by (induction xs) simp_all

lemma writes_concat_Emit [simp]: "writes (concat (map (\<lambda>y. map (\<lambda>x. Emit (f y x)) xs) ys)) = []"
  by (induction ys) simp_all

lemma calls_each_host:
  "calls (concat (map (collectHostMetrics_each_host n c) hs))
     = map (\<lambda>host. ObjectProperties (host_Reference host)) hs"
  by (induction hs) (simp_all add: collectHostMetrics_each_host_def Let_def)

text \<open>
  Claim C6, amended.  The task of a cluster and the datastore task of a datacenter make
  one property-retrieval call, for all the references at once, when the partition has at
  least one member, and none when it has no member or its listing fails; the tasks over
  a view make one call.  The walk that asks for each host on its own makes one
  \<open>Properties\<close> call for every host of every cluster it visits.
\<close>
theorem retrieval_calls_per_partition:
  "calls (collectHostMetricFromCluster datacenterName cluster) =
     (case cluster_Hosts cluster of
        Inl err \<Rightarrow> []
      | Inr hosts \<Rightarrow> if hosts = [] then [] else [PropertyRetrieve (map host_Reference hosts)])
   \<and> calls (collectDatastoreMetrics dc) =
     (case dc_DatastoreList dc of
        Inl err \<Rightarrow> []
      | Inr datastores \<Rightarrow>
          if datastores = [] then [] else [PropertyRetrieve (map datastore_Reference datastores)])
   \<and> calls (collectHostMetrics_view retrievedHosts) = [ViewRetrieve]
   \<and> calls (collectDatastoreMetrics_view retrievedDatastores) = [ViewRetrieve]
   \<and> calls (collectHostMetrics_each_clusters datacenterName (c # clusters)) =
     (case cluster_Hosts c of
        Inl err \<Rightarrow> []
      | Inr hosts \<Rightarrow>
          map (\<lambda>host. ObjectProperties (host_Reference host)) hosts
          @ calls (collectHostMetrics_each_clusters datacenterName clusters))"
  by (simp add: collectHostMetricFromCluster_def collectDatastoreMetrics_def
      collectHostMetrics_view_def collectDatastoreMetrics_view_def calls_each_host Let_def
      collectHostMetrics_each_clusters_Cons
      del: collectHostMetrics_each_clusters.simps(2) split: sum.splits)

text \<open>Two hosts in a cluster: the walk host by host makes two calls.  No host in a
  cluster, no datastore in a datacenter: no call.\<close>

theorem retrieval_calls_counterexample:
  "calls (collectHostMetrics_each
            \<lparr>dc_Name = ''dc4'', dc_ClusterComputeResourceList = Inr [twoHostCluster],
             dc_DatastoreList = Inr [], dc_DatastoreRetrieve = Inr []\<rparr>)
     = [ObjectProperties ''HostSystem:host-1'', ObjectProperties ''HostSystem:host-2'']
   \<and> calls (collectHostMetricFromCluster ''dc2'' emptyCluster) = []
   \<and> calls (collectDatastoreMetrics emptyDatacenter) = []"
  by (simp add: collectHostMetrics_each_def collectHostMetrics_each_host_def Let_def
      twoHostCluster_def goResult_def
      exampleHostHandle_def collectHostMetricFromCluster_def emptyCluster_def
      collectDatastoreMetrics_def emptyDatacenter_def)

lemma pollTasks_member:
  "list_all2 collectHostMetrics datacenters hostTraces \<Longrightarrow> dc \<in> set datacenters \<Longrightarrow>
   collectDatastoreMetrics dc \<in> set (pollTasks hostTraces datacenters)
   \<and> (\<exists>ht \<in> set (pollTasks hostTraces datacenters). collectHostMetrics dc ht)"
proof (induction rule: list_all2_induct)
  case Nil
  then show ?case by simp
next
  case (Cons d dcs ht hts)
  have "pollTasks (ht # hts) (d # dcs) = ht # collectDatastoreMetrics d # pollTasks hts dcs"
    by (simp add: pollTasks_def)
  with Cons show ?case by auto
qed

lemma poll_holds_tasks:
  assumes "list_all2 collectHostMetrics datacenters hostTraces"
    and "interleaving (pollTasks hostTraces datacenters) tr"
    and "dc \<in> set datacenters"
  shows "set (collectDatastoreMetrics dc) \<subseteq> set tr"
    and "dc_ClusterComputeResourceList dc = Inr clusters \<Longrightarrow> c \<in> set clusters \<Longrightarrow>
         set (collectHostMetricFromCluster (dc_Name dc) c) \<subseteq> set tr"
proof -
  have tr: "set tr = set (concat (pollTasks hostTraces datacenters))"
    using assms(2) by (rule interleaving_set)
  from pollTasks_member [OF assms(1,3)] tr show "set (collectDatastoreMetrics dc) \<subseteq> set tr"
    by auto
  assume cl: "dc_ClusterComputeResourceList dc = Inr clusters" "c \<in> set clusters"
  from pollTasks_member [OF assms(1,3)] obtain ht
    where ht: "ht \<in> set (pollTasks hostTraces datacenters)" "collectHostMetrics dc ht"
    by blast
  from ht(2) cl(1) have "set ht = set (concat (map (collectHostMetricFromCluster (dc_Name dc)) clusters))"
    by (simp add: collectHostMetrics_def interleaving_set)
  with cl(2) have "set (collectHostMetricFromCluster (dc_Name dc) c) \<subseteq> set ht" by auto
  with ht(1) tr show "set (collectHostMetricFromCluster (dc_Name dc) c) \<subseteq> set tr" by auto
qed

lemma emitted_mono: "set t \<subseteq> set tr \<Longrightarrow> set (emitted t) \<subseteq> set (emitted tr)"
  by (auto simp: set_emitted)

lemma Collect_holds_samples:
  assumes "Collect (Inr datacenters) e (stream, e')" and "dc \<in> set datacenters"
  shows "set (emitted (collectDatastoreMetrics dc)) \<subseteq> set stream"
    and "dc_ClusterComputeResourceList dc = Inr clusters \<Longrightarrow> c \<in> set clusters \<Longrightarrow>
         set (emitted (collectHostMetricFromCluster (dc_Name dc) c)) \<subseteq> set stream"
  using assms(1)
proof (atomize (full), cases rule: Collect.cases)
  case (Collect_listing_done hostTraces tr available)
  from Collect_listing_done have l: "list_all2 collectHostMetrics datacenters hostTraces"
      and i: "interleaving (pollTasks hostTraces datacenters) tr"
      and st: "stream = gaugeMetric (up e) # emitted tr
                 @ [MustNewConstMetric vcenterAvailableDesc available []]"
    by simp_all
  show "set (emitted (collectDatastoreMetrics dc)) \<subseteq> set stream \<and>
    (dc_ClusterComputeResourceList dc = Inr clusters \<longrightarrow> c \<in> set clusters \<longrightarrow>
     set (emitted (collectHostMetricFromCluster (dc_Name dc) c)) \<subseteq> set stream)"
    using poll_holds_tasks [OF l i assms(2), THEN emitted_mono] st by auto
qed

lemma walk_writes:
  "writes (collectDatastoreMetrics dc) = []"
  "writes (collectHostMetricFromCluster n c) = []"
  "collectHostMetrics dc tr \<Longrightarrow> writes tr = []"
  by (auto intro!: writes_Nil dest: collectDatastoreMetrics_events
      collectHostMetricFromCluster_events collectHostMetrics_events)

lemma view_writes:
  "writes (collectHostMetrics_view retrievedHosts) = [if isl retrievedHosts then 0 else 1]"
  "writes (collectDatastoreMetrics_view retrievedDatastores) = [if isl retrievedDatastores then 0 else 1]"
  by (simp_all add: collectHostMetrics_view_def collectDatastoreMetrics_view_def split: sum.splits)

text \<open>
  Claim C2, amended.  A task over a view writes the availability value once: 0 when its
  retrieval fails, 1 when it succeeds.  The tasks of the walk by datacenter and cluster
  never write it.  So in every poll whose datacenter listing succeeds the final
  availability value and the availability sample are 1, also when the fetch of some
  partition fails, and the samples of every datastore task and of every cluster task are
  in the stream.
\<close>

theorem availability_writes:
  assumes "Collect (Inr datacenters) e (stream, e')"
  shows "writes (collectHostMetrics_view retrievedHosts) = [if isl retrievedHosts then 0 else 1]
   \<and> writes (collectDatastoreMetrics_view retrievedDatastores)
       = [if isl retrievedDatastores then 0 else 1]
   \<and> writes (collectDatastoreMetrics dc) = []
   \<and> writes (collectHostMetricFromCluster datacenterName cluster) = []
   \<and> (\<forall>tr. collectHostMetrics dc tr \<longrightarrow> writes tr = [])
   \<and> vcenterAvailable e' = 1
   \<and> last stream = MustNewConstMetric vcenterAvailableDesc 1 []
   \<and> (\<forall>dc \<in> set datacenters.
        set (emitted (collectDatastoreMetrics dc)) \<subseteq> set stream
        \<and> (\<forall>clusters. dc_ClusterComputeResourceList dc = Inr clusters \<longrightarrow>
             (\<forall>c \<in> set clusters.
                set (emitted (collectHostMetricFromCluster (dc_Name dc) c)) \<subseteq> set stream)))"
  using view_writes walk_writes Collect_done_available [OF assms]
    Collect_holds_samples [OF assms]
  by (intro conjI ballI allI impI) blast+

lemma degradedDatacenter_hostTraces:
  "list_all2 collectHostMetrics [degradedDatacenter] [[]]"
  by (simp add: collectHostMetrics_def degradedDatacenter_def)

lemma degradedDatacenter_run:
  "Collect (Inr [degradedDatacenter]) startedExporter
     (gaugeMetric (up startedExporter) # emitted (collectDatastoreMetrics degradedDatacenter)
        @ [MustNewConstMetric vcenterAvailableDesc 1 []],
      startedExporter\<lparr>vcenterAvailable := 1\<rparr>)"
  using sequential_run [OF degradedDatacenter_hostTraces, of startedExporter]
  by (simp add: pollTasks_def emitted_def)

lemma degradedDatacenter_values:
  "map (\<lambda>s. (fqName (metricDesc s), metricValue s, labelValues s))
       (emitted (collectDatastoreMetrics degradedDatacenter))
   = [(''datastore_capacity_bytes'', 1000000000000, [''ds1'', ''dc1'']),
      (''datastore_free_space_bytes'', 250000000000, [''ds1'', ''dc1'']),
      (''datastore_accessibility'', 0, [''ds1'', ''dc1''])]"
  by (simp add: collectDatastoreMetrics_def degradedDatacenter_def exampleDatastoreHandle_def
      exampleDatastore_def emitted_def datastoreMetrics_def newVsphereDatastoreMetric_def
      NewDesc_def MustNewConstMetric_def datastoreLabelValuesOf_def datastoreLabelValues_def
      datastoreLabelGetterFuncRegistry_def datastoreMetricGetterFuncRegistry_lookups
      getDatastoreName_def getCapacity_def getFreeSpace_def getAccessibility_def
      float64_of_int64_def float64_of_int_small datastoreMetricPrefix_def)

theorem availability_writes_witness:
  "Collect (Inr [degradedDatacenter]) startedExporter
     (gaugeMetric (up startedExporter) # emitted (collectDatastoreMetrics degradedDatacenter)
        @ [MustNewConstMetric vcenterAvailableDesc 1 []],
      startedExporter\<lparr>vcenterAvailable := 1\<rparr>)
   \<and> writes (collectHostMetrics_view (Inr [exampleHost])) = [1]
   \<and> writes (collectHostMetrics_view (Inl (Error ''timeout''))) = [0]
   \<and> collectHostMetrics degradedDatacenter []
   \<and> set (emitted (collectDatastoreMetrics degradedDatacenter))
       \<subseteq> set (gaugeMetric (up startedExporter) # emitted (collectDatastoreMetrics degradedDatacenter)
        @ [MustNewConstMetric vcenterAvailableDesc 1 []])"
proof -
  note t = availability_writes [OF degradedDatacenter_run]
  have "collectHostMetrics degradedDatacenter []"
    by (simp add: collectHostMetrics_def degradedDatacenter_def)
  moreover have "writes (collectHostMetrics_view (Inr [exampleHost])) = [1]"
    "writes (collectHostMetrics_view (Inl (Error ''timeout''))) = [0]"
    using t [of "Inr [exampleHost]"] t [of "Inl (Error ''timeout'')"] by simp_all
  moreover have "set (emitted (collectDatastoreMetrics degradedDatacenter))
       \<subseteq> set (gaugeMetric (up startedExporter) # emitted (collectDatastoreMetrics degradedDatacenter)
        @ [MustNewConstMetric vcenterAvailableDesc 1 []])"
    using t by simp
  ultimately show ?thesis using degradedDatacenter_run by simp
qed

text \<open>A task over a view writes 1 after a successful retrieval, and a run in which a
  failed task is followed by a successful one ends with the value 1.  A poll of the walk
  in which the cluster listing fails and the datastores are retrieved sends the datastore
  samples and the availability value 1.\<close>

theorem availability_writes_counterexample:
  "writes (collectHostMetrics_view (Inr [exampleHost])) = [1]
   \<and> interleaving [collectHostMetrics_view (Inl (Error ''timeout'')),
                    collectDatastoreMetrics_view (Inr [exampleDatastore])]
        (collectHostMetrics_view (Inl (Error ''timeout''))
           @ collectDatastoreMetrics_view (Inr [exampleDatastore]))
   \<and> availableAfter 1 (collectHostMetrics_view (Inl (Error ''timeout''))
           @ collectDatastoreMetrics_view (Inr [exampleDatastore])) = 1
   \<and> dc_ClusterComputeResourceList degradedDatacenter = Inl (Error ''ServerFaultCode: permission denied'')
   \<and> Collect (Inr [degradedDatacenter]) startedExporter
       (gaugeMetric (up startedExporter) # emitted (collectDatastoreMetrics degradedDatacenter)
          @ [MustNewConstMetric vcenterAvailableDesc 1 []],
        startedExporter\<lparr>vcenterAvailable := 1\<rparr>)
   \<and> map (\<lambda>s. (fqName (metricDesc s), metricValue s, labelValues s))
       (emitted (collectDatastoreMetrics degradedDatacenter))
       = [(''datastore_capacity_bytes'', 1000000000000, [''ds1'', ''dc1'']),
          (''datastore_free_space_bytes'', 250000000000, [''ds1'', ''dc1'']),
          (''datastore_accessibility'', 0, [''ds1'', ''dc1''])]
   \<and> metricValue (MustNewConstMetric vcenterAvailableDesc 1 []) \<noteq> 0"
proof -
  have "interleaving [collectHostMetrics_view (Inl (Error ''timeout'')),
                    collectDatastoreMetrics_view (Inr [exampleDatastore])]
        (collectHostMetrics_view (Inl (Error ''timeout''))
           @ collectDatastoreMetrics_view (Inr [exampleDatastore]))"
    using interleaving_concat [of "[collectHostMetrics_view (Inl (Error ''timeout'')),
                    collectDatastoreMetrics_view (Inr [exampleDatastore])]"] by simp
  moreover have "availableAfter 1 (collectHostMetrics_view (Inl (Error ''timeout''))
           @ collectDatastoreMetrics_view (Inr [exampleDatastore])) = 1"
    by (simp add: availableAfter_def view_writes)
  moreover have "writes (collectHostMetrics_view (Inr [exampleHost])) = [1]"
    by (simp add: view_writes)
  ultimately show ?thesis
    using degradedDatacenter_run degradedDatacenter_values
    by (simp add: degradedDatacenter_def MustNewConstMetric_def)
qed

end
